theory Spec2Isabelle
  imports Complex_Main
begin

section \<open>Python values used by run\_tutorial\_tests\_ci.py\<close>

text \<open>
  A Python \<open>str\<close> is a sequence of Unicode code points, so it is a list of naturals
  here; \<open>ascii\<close> embeds an ASCII literal. The readings of \<open>time.time()\<close> are
  taken as reals; the success rate is computed in doubles, as modelled below. Console
  output (\<open>print\<close>) and \<open>time.sleep\<close> have no effect on any value and are left
  out.
\<close>

type_synonym pystr = "nat list"

definition ascii :: "string \<Rightarrow> pystr" where
  "ascii s = map of_char s"

text \<open>\<open>sub in s\<close> on strings.\<close>

fun starts_with :: "pystr \<Rightarrow> pystr \<Rightarrow> bool" where
  "starts_with [] s = True"
| "starts_with (c # cs) [] = False"
| "starts_with (c # cs) (d # ds) = (c = d \<and> starts_with cs ds)"

fun contains :: "pystr \<Rightarrow> pystr \<Rightarrow> bool" where
  "contains sub [] = (sub = [])"
| "contains sub (d # ds) = (starts_with sub (d # ds) \<or> contains sub ds)"

text \<open>\<open>str.strip()\<close>: the code points for which CPython's \<open>str.isspace\<close> holds.\<close>

definition is_space :: "nat \<Rightarrow> bool" where
  "is_space c = ((9 \<le> c \<and> c \<le> 13) \<or> (28 \<le> c \<and> c \<le> 32) \<or> c = 133 \<or> c = 160
     \<or> c = 5760 \<or> (8192 \<le> c \<and> c \<le> 8202) \<or> c = 8232 \<or> c = 8233 \<or> c = 8239
     \<or> c = 8287 \<or> c = 12288)"

definition strip :: "pystr \<Rightarrow> pystr" where
  "strip s = rev (dropWhile is_space (rev (dropWhile is_space s)))"

text \<open>\<open>s.replace('-', '\_')\<close>.\<close>

definition replace_dash :: "pystr \<Rightarrow> pystr" where
  "replace_dash s = map (\<lambda>c. if c = 45 then 95 else c) s"

text \<open>\<open>str(n)\<close> for an int.\<close>

fun digits :: "nat \<Rightarrow> pystr" where
  "digits n = (if n < 10 then [48 + n] else digits (n div 10) @ [48 + n mod 10])"

declare digits.simps [simp del]

definition str_int :: "int \<Rightarrow> pystr" where
  "str_int i = (if i < 0 then 45 # digits (nat (- i)) else digits (nat i))"

text \<open>
  The values a \<open>dict\<close> of this program holds, and what \<open>json.load\<close> can return.
\<close>

datatype json =
    JNull
  | JBool bool
  | JInt int
  | JFloat real
  | JStr pystr
  | JList "json list"
  | JDict "(pystr \<times> json) list"

text \<open>
  A \<open>dict\<close> keeps its keys in insertion order; assigning to a key that is present
  replaces the value where it stands, assigning to a new key appends.
\<close>

fun dict_get :: "('k \<times> 'v) list \<Rightarrow> 'k \<Rightarrow> 'v option" where
  "dict_get [] k = None"
| "dict_get ((k', v) # d) k = (if k' = k then Some v else dict_get d k)"

fun dict_set :: "'k \<Rightarrow> 'v \<Rightarrow> ('k \<times> 'v) list \<Rightarrow> ('k \<times> 'v) list" where
  "dict_set k v [] = [(k, v)]"
| "dict_set k v ((k', v') # d) = (if k' = k then (k, v) # d else (k', v') # dict_set k v d)"

type_synonym verdict = "(pystr \<times> json) list"

text \<open>An \<open>Exception\<close> instance, carried by \<open>str(e)\<close>.\<close>

datatype exn = Raised pystr

fun str_exn :: "exn \<Rightarrow> pystr" where
  "str_exn (Raised m) = m"

text \<open>The type name Python prints in a TypeError or AttributeError.\<close>

fun type_name :: "json \<Rightarrow> pystr" where
  "type_name JNull = ascii ''NoneType''"
| "type_name (JBool b) = ascii ''bool''"
| "type_name (JInt i) = ascii ''int''"
| "type_name (JFloat r) = ascii ''float''"
| "type_name (JStr s) = ascii ''str''"
| "type_name (JList xs) = ascii ''list''"
| "type_name (JDict d) = ascii ''dict''"

definition quoted :: "pystr \<Rightarrow> pystr" where
  "quoted s = [39] @ s @ [39]"

text \<open>\<open>f"{exec_time:.1f}"\<close>: numbers format, a string or anything else raises.\<close>

definition format_f1 :: "json \<Rightarrow> exn option" where
  "format_f1 v =
     (case v of
        JInt i \<Rightarrow> None
      | JFloat x \<Rightarrow> None
      | JBool b \<Rightarrow> None
      | JStr s \<Rightarrow> Some (Raised (ascii ''Unknown format code '' @ quoted (ascii ''f'')
                                   @ ascii '' for object of type '' @ quoted (ascii ''str'')))
      | u \<Rightarrow> Some (Raised (ascii ''unsupported format string passed to '' @ type_name u
                            @ ascii ''.__format__'')))"

section \<open>Python floats: the two operations of line 708\<close>

text \<open>
  \<open>successful_tests / total_tests * 100\<close> is a true division of two ints followed by
  the product of a float and an int. Both give the double nearest to the exact result,
  ties going to the even significand (CPython rounds \<open>int / int\<close> correctly, and
  100 is converted without error). A finite double that is not negative is kept as a
  fraction whose denominator is a power of two. The operands are two list lengths, one
  at most the other, so every result lies between \<open>2 ^ - 64\<close> and 100 or is zero:
  no overflow, no subnormal.
\<close>

text \<open>\<open>n.bit_length()\<close>\<close>

fun bitlen :: "nat \<Rightarrow> nat" where
  "bitlen n = (if n = 0 then 0 else Suc (bitlen (n div 2)))"

declare bitlen.simps [simp del]

text \<open>The integer nearest to \<open>a / b\<close>, the even one of two that are equally near.\<close>

definition rne :: "nat \<Rightarrow> nat \<Rightarrow> nat" where
  "rne a b =
     (let q = a div b; r = a mod b
      in if 2 * r < b then q
         else if b < 2 * r then q + 1
         else if even q then q else q + 1)"

type_synonym pyfloat = "nat \<times> nat"

definition float_value :: "pyfloat \<Rightarrow> real" where
  "float_value x = real (fst x) / real (snd x)"

text \<open>
  The powers of two by which \<open>a\<close> and \<open>b\<close> are multiplied so that the quotient
  lies between \<open>2 ^ 52\<close> (included) and \<open>2 ^ 53\<close> (excluded): its integer part then
  has 53 bits.
\<close>

definition scale_up :: "nat \<Rightarrow> nat \<Rightarrow> nat" where
  "scale_up a b = (bitlen b + 53) - bitlen a"

definition scale_down :: "nat \<Rightarrow> nat \<Rightarrow> nat" where
  "scale_down a b =
     (let v0 = bitlen a - (bitlen b + 53)
      in if 2 ^ 53 * (b * 2 ^ v0) \<le> a * 2 ^ scale_up a b then v0 + 1 else v0)"

text \<open>The double nearest to \<open>a / b\<close>, for \<open>b\<close> positive.\<close>

definition to_double :: "nat \<Rightarrow> nat \<Rightarrow> pyfloat" where
  "to_double a b =
     (if a = 0 then (0, 1)
      else (rne (a * 2 ^ scale_up a b) (b * 2 ^ scale_down a b) * 2 ^ scale_down a b,
            2 ^ scale_up a b))"

text \<open>\<open>a / b\<close> on ints that are not negative; a zero divisor raises ZeroDivisionError.\<close>

definition true_divide :: "nat \<Rightarrow> nat \<Rightarrow> exn + pyfloat" where
  "true_divide a b =
     (if b = 0 then Inl (Raised (ascii ''division by zero'')) else Inr (to_double a b))"

text \<open>\<open>x * c\<close> for a float and an int below \<open>2 ^ 53\<close>.\<close>

definition float_times :: "pyfloat \<Rightarrow> nat \<Rightarrow> pyfloat" where
  "float_times x c = to_double (fst x * c) (snd x)"

text \<open>The value of \<open>s / n * 100\<close> when the division does not raise.\<close>

definition rate_of :: "nat \<Rightarrow> nat \<Rightarrow> real" where
  "rate_of s n = float_value (float_times (to_double s n) 100)"

section \<open>generate\_report: the summary\<close>

record summary =
  total_tests :: int
  successful_tests :: int
  failed_tests :: int
  success_rate :: real

text \<open>\<open>r.get('status') == 'success'\<close>\<close>

definition is_success :: "verdict \<Rightarrow> bool" where
  "is_success r = (dict_get r (ascii ''status'') = Some (JStr (ascii ''success'')))"

text \<open>
  Lines 698 to 709 of \<open>generate_report\<close>: \<open>len(results)\<close>, the count of the values
  whose status is success, their difference, and the conditional expression of line 708,
  whose division raises on a zero total if it is ever reached.
\<close>

definition make_summary :: "(pystr \<times> verdict) list \<Rightarrow> exn + summary" where
  "make_summary results =
     (let total = length results;
          successful = length (filter is_success (map snd results))
      in case (if total > 0
               then (case true_divide successful total of
                       Inl x \<Rightarrow> Inl x
                     | Inr q \<Rightarrow> Inr (float_value (float_times q 100)))
               else Inr 0) of
           Inl x \<Rightarrow> Inl x
         | Inr rate \<Rightarrow>
             Inr \<lparr> total_tests = int total,
                   successful_tests = int successful,
                   failed_tests = int total - int successful,
                   success_rate = rate \<rparr>)"

section \<open>The environment: clock, child processes, files\<close>

text \<open>
  What \<open>process.stdout.readline()\<close> does on one iteration of a supervision loop:
  it returns text (the empty string at end of file), raises (undecodable bytes), or
  blocks for good when the child neither writes a line nor closes its output.
\<close>

datatype readline = Got pystr | ReadRaises | Blocks

text \<open>
  One iteration as the supervisor sees it: the value of \<open>process.poll()\<close>, the reading
  of \<open>time.time()\<close>, and the outcome of \<open>readline\<close>.
\<close>

datatype tick = Tick (poll: "int option") (now: real) (rl: readline)

text \<open>
  The behaviour of one child process and the clock readings taken around it.
  \<open>after_terminate\<close> is the exit status when the child has ended by the end of the grace
  period that follows \<open>terminate()\<close>, \<open>None\<close> when it is still alive then;
  \<open>after_read_error\<close> is the same for the \<open>wait(timeout=5)\<close> that follows a loop
  left through a \<open>readline\<close> fault; \<open>kill_code\<close> is \<open>returncode\<close> after \<open>kill()\<close>
  and \<open>wait()\<close>. \<open>writes\<close> are the files the child leaves in the output directory,
  as \<open>open\<close> and \<open>json.load\<close> will see them (\<open>Inl\<close>: reading or parsing raises).
\<close>

record proc =
  launch_error :: "exn option"
  t_start :: real
  ticks :: "tick list"
  after_terminate :: "int option"
  after_read_error :: "int option"
  kill_code :: int
  t_end :: real
  writes :: "pystr \<rightharpoonup> exn + json"

text \<open>How one \<open>tempfile.NamedTemporaryFile(delete=False)\<close> followed by \<open>f.write\<close> goes.\<close>

datatype temp_outcome = CreateFails exn | WriteFails exn | Written

text \<open>
  Everything the program does not decide: the n-th temporary file, the n-th child
  process, whether \<open>os.unlink\<close> of a temporary file succeeds, whether writing
  \<open>test_report.json\<close> raises, the clock reading put in the report,
  \<open>platform.system()\<close>, and for \<open>main\<close> whether the
  executable exists and whether creating the output directory raises.
\<close>

record env =
  mktemp :: "nat \<Rightarrow> temp_outcome"
  procs :: "nat \<Rightarrow> proc"
  unlink_ok :: "nat \<Rightarrow> bool"
  report_write :: "exn option"
  report_time :: real
  on_windows :: bool
  slicer_exists :: bool
  mkdir_error :: "exn option"

text \<open>A command-line word: a literal, or the path of the n-th temporary file.\<close>

datatype arg = Lit pystr | TempPath nat

datatype event = Popen "arg list" | Terminate | Kill | Unlink nat

text \<open>
  The state the program changes: the temporary scripts on disk (by creation index), the
  files of the output directory by name, the number of \<open>Popen\<close> calls and of temporary
  files so far, and the effects issued, oldest first.
\<close>

record world =
  temp_files :: "nat set"
  next_temp :: nat
  out_files :: "pystr \<rightharpoonup> exn + json"
  spawned :: nat
  trail :: "event list"

text \<open>
  The runner object with the module global \<open>SLICER_TIMEOUT\<close> it reads; its output
  directory is the one \<open>out_files\<close> describes.
\<close>

record runner =
  slicer_executable :: pystr
  tutorial_name :: pystr
  slicer_timeout :: int

definition emit :: "event list \<Rightarrow> world \<Rightarrow> world" where
  "emit es w = w\<lparr>trail := trail w @ es\<rparr>"

text \<open>
  \<open>_create_language_config_script\<close> and \<open>_create_tutorial_test_script\<close>: the file is
  created with \<open>delete=False\<close>, so a failing \<open>write\<close> leaves it on disk. The text of
  the script plays no part in what the supervisor computes and is not kept.
\<close>

definition create_script :: "env \<Rightarrow> world \<Rightarrow> (exn + nat) \<times> world" where
  "create_script e w =
     (let n = next_temp w in
      case mktemp e n of
        CreateFails x \<Rightarrow> (Inl x, w\<lparr>next_temp := Suc n\<rparr>)
      | WriteFails x \<Rightarrow> (Inl x, w\<lparr>temp_files := insert n (temp_files w), next_temp := Suc n\<rparr>)
      | Written \<Rightarrow> (Inr n, w\<lparr>temp_files := insert n (temp_files w), next_temp := Suc n\<rparr>))"

text \<open>The \<open>finally\<close> clause: \<open>try: os.unlink(script)\<close>, \<open>except: pass\<close>.\<close>

definition unlink_quietly :: "env \<Rightarrow> nat \<Rightarrow> world \<Rightarrow> world" where
  "unlink_quietly e n w =
     (if unlink_ok e n then emit [Unlink n] (w\<lparr>temp_files := temp_files w - {n}\<rparr>) else w)"

text \<open>\<open>subprocess.Popen(cmd, ...)\<close>\<close>

definition popen :: "env \<Rightarrow> arg list \<Rightarrow> world \<Rightarrow> (exn + proc) \<times> world" where
  "popen e cmd w =
     (let p = procs e (spawned w);
          w' = emit [Popen cmd] (w\<lparr>spawned := Suc (spawned w)\<rparr>)
      in case launch_error p of Some x \<Rightarrow> (Inl x, w') | None \<Rightarrow> (Inr p, w'))"

text \<open>The files the child has left once its supervision is over.\<close>

definition absorb :: "proc \<Rightarrow> world \<Rightarrow> world" where
  "absorb p w = w\<lparr>out_files := out_files w ++ writes p\<rparr>"

section \<open>\_configure\_language\<close>

datatype config_end = ConfigTimeout | ConfigBroke "int option" "pystr list"

text \<open>
  The \<open>while True\<close> loop of lines 106 to 128. The list of ticks is what the supervisor
  observes; when it is used up with the loop still running, or when \<open>readline\<close> blocks,
  the call has not returned: \<open>None\<close>.
\<close>

fun config_loop :: "real \<Rightarrow> tick list \<Rightarrow> pystr list \<Rightarrow> config_end option" where
  "config_loop start [] output_lines = None"
| "config_loop start (t # ts) output_lines =
     (case poll t of
        Some rc \<Rightarrow> Some (ConfigBroke (Some rc) output_lines)
      | None \<Rightarrow>
          if now t - start > 30 then Some ConfigTimeout
          else (case rl t of
                  Got line \<Rightarrow>
                    if line \<noteq> [] then config_loop start ts (output_lines @ [strip line])
                    else config_loop start ts output_lines
                | ReadRaises \<Rightarrow> Some (ConfigBroke None output_lines)
                | Blocks \<Rightarrow> None))"

text \<open>Lines 145 and 146: the two scans of the captured output.\<close>

definition config_found :: "pystr list \<Rightarrow> bool" where
  "config_found output_lines =
     list_ex (\<lambda>line. contains (ascii ''pt-BR'') line
                   \<and> contains (ascii ''i18n habilitado: True'') line) output_lines"

text \<open>
  U+2705 is the check mark; \<open>Configura\<close> is followed by c-cedilla (231), a-tilde (227)
  and \<open>o\<close>.
\<close>

definition success_msg_found :: "pystr list \<Rightarrow> bool" where
  "success_msg_found output_lines =
     list_ex (\<lambda>line. contains [9989] line
                   \<and> contains (ascii ''Configura'' @ [231, 227] @ ascii ''o'') line) output_lines"

text \<open>
  Lines 113 to 116: \<open>terminate()\<close>, two seconds of sleep, and \<open>kill()\<close> when
  \<open>poll()\<close> still gives \<open>None\<close>.
\<close>

definition give_up :: "proc \<Rightarrow> world \<Rightarrow> world" where
  "give_up p w =
     emit (Terminate # (case after_terminate p of None \<Rightarrow> [Kill] | Some rc \<Rightarrow> [])) w"

text \<open>
  Lines 131 to 135: \<open>process.wait(timeout=5)\<close>, and on TimeoutExpired \<open>kill()\<close> and
  \<open>wait()\<close>; the result is \<open>process.returncode\<close>. A child that \<open>poll()\<close> has seen
  ended is waited for at once.
\<close>

definition await_exit :: "proc \<Rightarrow> int option \<Rightarrow> world \<Rightarrow> int \<times> world" where
  "await_exit p polled w =
     (case polled of
        Some rc \<Rightarrow> (rc, w)
      | None \<Rightarrow>
          (case after_read_error p of
             Some rc \<Rightarrow> (rc, w)
           | None \<Rightarrow> (kill_code p, emit [Kill] w)))"

text \<open>Line 87: the command.\<close>

definition config_cmd :: "runner \<Rightarrow> nat \<Rightarrow> arg list" where
  "config_cmd r config_script =
     [Lit (slicer_executable r), Lit (ascii ''--no-splash''),
      Lit (ascii ''--python-script''), TempPath config_script]"

text \<open>
  The body of the \<open>try\<close> (lines 87 to 156). \<open>except Exception\<close> turns a fault of
  \<open>Popen\<close> into \<open>False\<close>.
\<close>

definition configure_body :: "env \<Rightarrow> runner \<Rightarrow> nat \<Rightarrow> world \<Rightarrow> (bool \<times> world) option" where
  "configure_body e r config_script w =
     (case popen e (config_cmd r config_script) w of
        (Inl x, w1) \<Rightarrow> Some (False, w1)
      | (Inr p, w1) \<Rightarrow>
          (case config_loop (t_start p) (ticks p) [] of
             None \<Rightarrow> None
           | Some ConfigTimeout \<Rightarrow> Some (False, absorb p (give_up p w1))
           | Some (ConfigBroke polled output_lines) \<Rightarrow>
               (case await_exit p polled w1 of
                  (returncode, w2) \<Rightarrow>
                    (let success = (returncode = 0)
                     in Some ((if success then True
                               else config_found output_lines \<or> success_msg_found output_lines),
                              absorb p w2)))))"

text \<open>
  The whole method: the script is created before the \<open>try\<close>, so its fault propagates
  (\<open>Inl\<close>); after that the \<open>finally\<close> clause runs on every way out.
\<close>

definition configure_language ::
    "env \<Rightarrow> runner \<Rightarrow> pystr \<Rightarrow> world \<Rightarrow> ((exn + bool) \<times> world) option" where
  "configure_language e r language_code w =
     (case create_script e w of
        (Inl x, w1) \<Rightarrow> Some (Inl x, w1)
      | (Inr config_script, w1) \<Rightarrow>
          (case configure_body e r config_script w1 of
             None \<Rightarrow> None
           | Some (success, w2) \<Rightarrow> Some (Inr success, unlink_quietly e config_script w2)))"

section \<open>\_run\_tutorial\_test\<close>

text \<open>
  The \<open>while True\<close> loop of lines 206 to 229 with the escalation of lines 213 to 218.
  It yields \<open>process.returncode\<close> as it stands after the loop (\<open>None\<close> when the loop
  was left through a \<open>readline\<close> fault), the captured lines and the signals sent.
\<close>

fun test_loop ::
    "real \<Rightarrow> proc \<Rightarrow> tick list \<Rightarrow> pystr list \<Rightarrow> (int option \<times> pystr list \<times> event list) option" where
  "test_loop tmo p [] output_lines = None"
| "test_loop tmo p (t # ts) output_lines =
     (case poll t of
        Some rc \<Rightarrow> Some (Some rc, output_lines, [])
      | None \<Rightarrow>
          if now t - t_start p > tmo then
            (case after_terminate p of
               Some rc \<Rightarrow> Some (Some rc, output_lines, [Terminate])
             | None \<Rightarrow> Some (Some (kill_code p), output_lines, [Terminate, Kill]))
          else (case rl t of
                  Got line \<Rightarrow>
                    if line \<noteq> [] then test_loop tmo p ts (output_lines @ [strip line])
                    else test_loop tmo p ts output_lines
                | ReadRaises \<Rightarrow> Some (None, output_lines, [])
                | Blocks \<Rightarrow> None))"

text \<open>The dict of lines 260 to 266, built by \<open>except Exception as e\<close>.\<close>

definition error_verdict :: "runner \<Rightarrow> pystr \<Rightarrow> exn \<Rightarrow> verdict" where
  "error_verdict r language_code x =
     [(ascii ''language'', JStr language_code),
      (ascii ''tutorial'', JStr (tutorial_name r)),
      (ascii ''status'', JStr (ascii ''error'')),
      (ascii ''error'', JStr (str_exn x)),
      (ascii ''execution_time'', JInt 0)]"

definition str_return_code :: "int option \<Rightarrow> pystr" where
  "str_return_code rc = (case rc of None \<Rightarrow> ascii ''None'' | Some i \<Rightarrow> str_int i)"

definition json_return_code :: "int option \<Rightarrow> json" where
  "json_return_code rc = (case rc of None \<Rightarrow> JNull | Some i \<Rightarrow> JInt i)"

text \<open>The dict of lines 249 to 257.\<close>

definition no_result_verdict ::
    "runner \<Rightarrow> pystr \<Rightarrow> int option \<Rightarrow> pystr list \<Rightarrow> real \<Rightarrow> verdict" where
  "no_result_verdict r language_code return_code output_lines execution_time =
     [(ascii ''language'', JStr language_code),
      (ascii ''tutorial'', JStr (tutorial_name r)),
      (ascii ''status'', JStr (ascii ''error'')),
      (ascii ''error'', JStr (ascii ''No result file found. Return code: '' @ str_return_code return_code)),
      (ascii ''slicer_output'', JList (map JStr output_lines)),
      (ascii ''execution_time'', JFloat execution_time),
      (ascii ''return_code'', json_return_code return_code)]"

text \<open>
  Lines 243 to 245: three item assignments on whatever \<open>json.load\<close> returned. Only a
  dict takes them; on any other value the first one raises TypeError.
\<close>

definition merge_result :: "json \<Rightarrow> int option \<Rightarrow> pystr list \<Rightarrow> real \<Rightarrow> exn + verdict" where
  "merge_result result_data return_code output_lines execution_time =
     (case result_data of
        JDict d \<Rightarrow>
          Inr (dict_set (ascii ''slicer_output'') (JList (map JStr output_lines))
                (dict_set (ascii ''return_code'') (json_return_code return_code)
                  (dict_set (ascii ''execution_time'') (JFloat execution_time) d)))
      | JList xs \<Rightarrow> Inl (Raised (ascii ''list indices must be integers or slices, not str''))
      | v \<Rightarrow> Inl (Raised ([39] @ type_name v @ [39] @ ascii '' object does not support item assignment'')))"

definition result_file :: "pystr \<Rightarrow> pystr" where
  "result_file language_code = ascii ''result_'' @ replace_dash language_code @ ascii ''.json''"

text \<open>Lines 181 to 188: the command, with the headless flags except on Windows.\<close>

definition test_cmd :: "env \<Rightarrow> runner \<Rightarrow> nat \<Rightarrow> arg list" where
  "test_cmd e r test_script =
     [Lit (slicer_executable r), Lit (ascii ''--no-splash'')]
     @ (if \<not> on_windows e
        then [Lit (ascii ''--no-main-window''), Lit (ascii ''--disable-cli-modules'')]
        else [])
     @ [Lit (ascii ''--python-script''), TempPath test_script]"

text \<open>
  Lines 237 to 257, with the \<open>except Exception\<close> of line 259 for the faults of
  \<open>open\<close>, \<open>json.load\<close> and the item assignments.
\<close>

definition check_result ::
    "runner \<Rightarrow> pystr \<Rightarrow> int option \<Rightarrow> pystr list \<Rightarrow> real \<Rightarrow> world \<Rightarrow> verdict" where
  "check_result r language_code return_code output_lines execution_time w =
     (case out_files w (result_file language_code) of
        Some f \<Rightarrow>
          (case f of
             Inl x \<Rightarrow> error_verdict r language_code x
           | Inr result_data \<Rightarrow>
               (case merge_result result_data return_code output_lines execution_time of
                  Inl x \<Rightarrow> error_verdict r language_code x
                | Inr v \<Rightarrow> v))
      | None \<Rightarrow> no_result_verdict r language_code return_code output_lines execution_time)"

text \<open>The body of the \<open>try\<close> with its \<open>except Exception\<close> (lines 180 to 266).\<close>

definition test_body :: "env \<Rightarrow> runner \<Rightarrow> pystr \<Rightarrow> nat \<Rightarrow> world \<Rightarrow> (verdict \<times> world) option" where
  "test_body e r language_code test_script w =
     (case popen e (test_cmd e r test_script) w of
        (Inl x, w1) \<Rightarrow> Some (error_verdict r language_code x, w1)
      | (Inr p, w1) \<Rightarrow>
          (case test_loop (real_of_int (slicer_timeout r)) p (ticks p) [] of
             None \<Rightarrow> None
           | Some (return_code, output_lines, signals) \<Rightarrow>
               (let execution_time = t_end p - t_start p;
                    w2 = absorb p (emit signals w1)
                in Some (check_result r language_code return_code output_lines execution_time w2,
                         w2))))"

definition run_tutorial_test ::
    "env \<Rightarrow> runner \<Rightarrow> pystr \<Rightarrow> world \<Rightarrow> ((exn + verdict) \<times> world) option" where
  "run_tutorial_test e r language_code w =
     (case create_script e w of
        (Inl x, w1) \<Rightarrow> Some (Inl x, w1)
      | (Inr test_script, w1) \<Rightarrow>
          (case test_body e r language_code test_script w1 of
             None \<Rightarrow> None
           | Some (v, w2) \<Rightarrow> Some (Inr v, unlink_quietly e test_script w2)))"

section \<open>run\_test\_for\_language and run\_all\_tests\<close>

text \<open>Lines 51 to 57; the message is \<open>Falha na configura\<close>, 231, 227, \<open>o de linguagem\<close>.\<close>

definition config_failed_verdict :: "runner \<Rightarrow> pystr \<Rightarrow> verdict" where
  "config_failed_verdict r language_code =
     [(ascii ''language'', JStr language_code),
      (ascii ''tutorial'', JStr (tutorial_name r)),
      (ascii ''status'', JStr (ascii ''error'')),
      (ascii ''error'', JStr (ascii ''Falha na configura'' @ [231, 227] @ ascii ''o de linguagem'')),
      (ascii ''execution_time'', JInt 0)]"

text \<open>Lines 65 to 71.\<close>

definition exception_verdict :: "runner \<Rightarrow> pystr \<Rightarrow> exn \<Rightarrow> verdict" where
  "exception_verdict r language_code x =
     [(ascii ''language'', JStr language_code),
      (ascii ''tutorial'', JStr (tutorial_name r)),
      (ascii ''status'', JStr (ascii ''exception'')),
      (ascii ''error'', JStr (str_exn x)),
      (ascii ''execution_time'', JInt 0)]"

definition run_test_for_language ::
    "env \<Rightarrow> runner \<Rightarrow> pystr \<Rightarrow> world \<Rightarrow> (verdict \<times> world) option" where
  "run_test_for_language e r language_code w =
     (case configure_language e r language_code w of
        None \<Rightarrow> None
      | Some (Inl x, w1) \<Rightarrow> Some (exception_verdict r language_code x, w1)
      | Some (Inr config_success, w1) \<Rightarrow>
          if \<not> config_success then Some (config_failed_verdict r language_code, w1)
          else (case run_tutorial_test e r language_code w1 of
                  None \<Rightarrow> None
                | Some (Inl x, w2) \<Rightarrow> Some (exception_verdict r language_code x, w2)
                | Some (Inr v, w2) \<Rightarrow> Some (v, w2)))"

definition DEFAULT_LANGUAGES :: "pystr list" where
  "DEFAULT_LANGUAGES = [ascii ''pt-BR'', ascii ''es-419'', ascii ''fr-FR'']"

text \<open>
  Lines 666 to 676, the console line for one result: the time is formatted with
  \<open>:.1f\<close> when the status is success or timeout, and not at all otherwise.
\<close>

definition log_result :: "verdict \<Rightarrow> exn option" where
  "log_result result =
     (let status = (case dict_get result (ascii ''status'') of
                      None \<Rightarrow> JStr (ascii ''unknown'') | Some v \<Rightarrow> v);
          exec_time = (case dict_get result (ascii ''execution_time'') of
                         None \<Rightarrow> JInt 0 | Some v \<Rightarrow> v)
      in if status = JStr (ascii ''success'') then format_f1 exec_time
         else if status = JStr (ascii ''timeout'') then format_f1 exec_time
         else None)"

text \<open>The dict of lines 680 to 684, which replaces the result under the same key.\<close>

definition loop_exception_verdict :: "pystr \<Rightarrow> exn \<Rightarrow> verdict" where
  "loop_exception_verdict lang x =
     [(ascii ''language'', JStr lang),
      (ascii ''status'', JStr (ascii ''exception'')),
      (ascii ''error'', JStr (str_exn x))]"

text \<open>
  The \<open>for\<close> loop of lines 661 to 684: \<open>results[lang] = result\<close>, then the console
  line, and in the \<open>except\<close> branch a second assignment to \<open>results[lang]\<close>.
\<close>

fun tests_loop ::
    "env \<Rightarrow> runner \<Rightarrow> pystr list \<Rightarrow> (pystr \<times> verdict) list \<Rightarrow> world
       \<Rightarrow> ((pystr \<times> verdict) list \<times> world) option" where
  "tests_loop e r [] results w = Some (results, w)"
| "tests_loop e r (lang # rest) results w =
     (case run_test_for_language e r lang w of
        None \<Rightarrow> None
      | Some (result, w1) \<Rightarrow>
          (case log_result result of
             None \<Rightarrow> tests_loop e r rest (dict_set lang result results) w1
           | Some x \<Rightarrow>
               tests_loop e r rest
                 (dict_set lang (loop_exception_verdict lang x) (dict_set lang result results)) w1))"

definition run_all_tests ::
    "env \<Rightarrow> runner \<Rightarrow> pystr list option \<Rightarrow> world \<Rightarrow> ((pystr \<times> verdict) list \<times> world) option" where
  "run_all_tests e r language_codes w =
     tests_loop e r (case language_codes of None \<Rightarrow> DEFAULT_LANGUAGES | Some ls \<Rightarrow> ls) [] w"

section \<open>generate\_report and main\<close>

record report =
  tutorial :: pystr
  timestamp :: real
  summary :: summary
  results :: "(pystr \<times> verdict) list"

text \<open>
  One turn of the console loop of lines 729 to 743: the icon is looked up in a dict
  (an unhashable status raises), then \<open>status.upper()\<close> and the time are formatted.
\<close>

definition console_line :: "verdict \<Rightarrow> exn option" where
  "console_line result =
     (let status = (case dict_get result (ascii ''status'') of
                      None \<Rightarrow> JStr (ascii ''unknown'') | Some v \<Rightarrow> v);
          exec_time = (case dict_get result (ascii ''execution_time'') of
                         None \<Rightarrow> JInt 0 | Some v \<Rightarrow> v)
      in case status of
           JList xs \<Rightarrow> Some (Raised (ascii ''unhashable type: '' @ quoted (ascii ''list'')))
         | JDict d \<Rightarrow> Some (Raised (ascii ''unhashable type: '' @ quoted (ascii ''dict'')))
         | JStr s \<Rightarrow> format_f1 exec_time
         | u \<Rightarrow> Some (Raised (quoted (type_name u) @ ascii '' object has no attribute ''
                               @ quoted (ascii ''upper''))))"

fun console_report :: "(pystr \<times> verdict) list \<Rightarrow> exn option" where
  "console_report [] = None"
| "console_report ((lang, result) # rest) =
     (case console_line result of Some x \<Rightarrow> Some x | None \<Rightarrow> console_report rest)"

text \<open>What \<open>json.dump(report, f)\<close> puts in \<open>test_report.json\<close>.\<close>

definition json_of_report :: "report \<Rightarrow> json" where
  "json_of_report rep =
     JDict [(ascii ''tutorial'', JStr (tutorial rep)),
            (ascii ''timestamp'', JFloat (timestamp rep)),
            (ascii ''summary'',
               JDict [(ascii ''total_tests'', JInt (total_tests (summary rep))),
                      (ascii ''successful_tests'', JInt (successful_tests (summary rep))),
                      (ascii ''failed_tests'', JInt (failed_tests (summary rep))),
                      (ascii ''success_rate'',
                         (if total_tests (summary rep) > 0
                          then JFloat (success_rate (summary rep)) else JInt 0))]),
            (ascii ''results'', JDict (map (\<lambda>(lang, v). (lang, JDict v)) (results rep)))]"

definition generate_report ::
    "env \<Rightarrow> runner \<Rightarrow> (pystr \<times> verdict) list \<Rightarrow> world \<Rightarrow> (exn + report) \<times> world" where
  "generate_report e r res w =
     (case make_summary res of
        Inl x \<Rightarrow> (Inl x, w)
      | Inr s \<Rightarrow>
          (let rep = \<lparr> tutorial = tutorial_name r, timestamp = report_time e,
                        summary = s, results = res \<rparr>
           in case report_write e of
                Some x \<Rightarrow> (Inl x, w)
              | None \<Rightarrow>
                  (let w1 = w\<lparr>out_files := (out_files w)(ascii ''test_report.json'' \<mapsto> Inr (json_of_report rep))\<rparr>
                   in case console_report res of
                        Some x \<Rightarrow> (Inl x, w1)
                      | None \<Rightarrow> (Inr rep, w1))))"

text \<open>
  The command line as \<open>argparse\<close> takes it apart for the parser of lines 755 to 765:
  the positional word, and for each option whether it is given and with which words.
  \<open>--languages\<close> is declared with \<open>nargs='+'\<close>, so it can be given with no word
  after it, which \<open>argparse\<close> refuses. A command line refused for another reason (no
  path, an unknown option, a timeout that is no integer) or asking for help also leaves
  inside \<open>parse_args\<close>, before any statement of \<open>main\<close> that is modelled, and is not
  described.
\<close>

record command_line =
  given_path :: pystr
  given_tutorial :: "pystr option"
  given_languages :: "pystr list option"
  given_output :: "pystr option"
  given_timeout :: "int option"

text \<open>The namespace \<open>parse_args\<close> returns.\<close>

record args =
  slicer_path :: pystr
  arg_tutorial :: pystr
  languages :: "pystr list"
  arg_output :: "pystr option"
  arg_timeout :: int

definition SLICER_TIMEOUT :: int where
  "SLICER_TIMEOUT = 300"

text \<open>
  \<open>parser.parse_args()\<close> with the defaults of lines 759 to 765. The error of
  \<open>argparse\<close> (\<open>expected at least one argument\<close>) ends the process with status 2.
\<close>

definition parse_args :: "command_line \<Rightarrow> int + args" where
  "parse_args c =
     (case given_languages c of
        Some [] \<Rightarrow> Inl 2
      | _ \<Rightarrow>
          Inr \<lparr> slicer_path = given_path c,
                arg_tutorial = (case given_tutorial c of
                                  None \<Rightarrow> ascii ''TestTutorial'' | Some t \<Rightarrow> t),
                languages = (case given_languages c of
                               None \<Rightarrow> DEFAULT_LANGUAGES | Some ls \<Rightarrow> ls),
                arg_output = given_output c,
                arg_timeout = (case given_timeout c of
                                 None \<Rightarrow> SLICER_TIMEOUT | Some t \<Rightarrow> t) \<rparr>)"

text \<open>
  The constructor call of line 776 together with the assignment to the global
  \<open>SLICER_TIMEOUT\<close> of line 773. The output directory is the one \<open>out_files\<close>
  describes, whatever its path.
\<close>

definition make_runner :: "args \<Rightarrow> runner" where
  "make_runner a =
     \<lparr> slicer_executable = slicer_path a,
       tutorial_name = (if arg_tutorial a = [] then ascii ''TestTutorial'' else arg_tutorial a),
       slicer_timeout = arg_timeout a \<rparr>"

text \<open>Lines 792 to 800: the exit status chosen from the rate of the report.\<close>

definition exit_status :: "real \<Rightarrow> int" where
  "exit_status rate = (if rate = 100 then 0 else if rate \<ge> 50 then 1 else 2)"

text \<open>
  \<open>main\<close>, yielding the exit status of the process. \<open>sys.exit\<close> raises SystemExit,
  which \<open>except Exception\<close> does not catch, so the statuses of the \<open>try\<close> block
  leave as they are. The constructor runs \<open>mkdir\<close> at line 29, called from line 776
  before the \<open>try\<close> of line 782: its fault is caught by nothing and ends the
  interpreter with a traceback and status 1.
\<close>

definition main :: "env \<Rightarrow> command_line \<Rightarrow> world \<Rightarrow> (int \<times> world) option" where
  "main e c w =
     (case parse_args c of
        Inl status \<Rightarrow> Some (status, w)
      | Inr a \<Rightarrow>
          if \<not> slicer_exists e then Some (1, w)
          else case mkdir_error e of
                 Some x \<Rightarrow> Some (1, w)
               | None \<Rightarrow>
                   (case run_all_tests e (make_runner a) (Some (languages a)) w of
                      None \<Rightarrow> None
                    | Some (res, w1) \<Rightarrow>
                        (case generate_report e (make_runner a) res w1 of
                           (Inl x, w2) \<Rightarrow> Some (3, w2)
                         | (Inr rep, w2) \<Rightarrow>
                             Some (exit_status (success_rate (summary rep)), w2))))"

section \<open>The batch as a sequence of runs\<close>


section \<open>Concrete runs\<close>

text \<open>
  Small environments on which the model is evaluated: a world with nothing on disk, a
  runner with the default tutorial and timeout, and children built from what the
  supervisor sees of them.
\<close>

definition world0 :: world where
  "world0 = \<lparr> temp_files = {}, next_temp = 0, out_files = Map.empty, spawned = 0, trail = [] \<rparr>"

definition runner0 :: runner where
  "runner0 = \<lparr> slicer_executable = ascii ''Slicer'', tutorial_name = ascii ''TestTutorial'',
               slicer_timeout = 300 \<rparr>"

text \<open>
  A child that is read line by line and then seen to have exited with \<open>rc\<close>, leaving
  the files \<open>fs\<close> behind.
\<close>

definition exits :: "int \<Rightarrow> pystr list \<Rightarrow> (pystr \<rightharpoonup> exn + json) \<Rightarrow> proc" where
  "exits rc lines fs =
     \<lparr> launch_error = None, t_start = 0,
       ticks = map (\<lambda>l. Tick None 1 (Got l)) lines @ [Tick (Some rc) 2 (Got [])],
       after_terminate = None, after_read_error = None, kill_code = - 9, t_end = 2,
       writes = fs \<rparr>"

text \<open>
  A child that writes nothing, is still alive 301 seconds after its start and does not
  end on \<open>terminate()\<close>.
\<close>

definition hangs :: proc where
  "hangs =
     \<lparr> launch_error = None, t_start = 0,
       ticks = [Tick None 1 (Got []), Tick None 301 (Got [])],
       after_terminate = None, after_read_error = None, kill_code = - 9, t_end = 306,
       writes = Map.empty \<rparr>"

text \<open>
  An environment without faults in which the first child is \<open>p0\<close> and every later one
  is \<open>p1\<close>.
\<close>

definition env_of :: "proc \<Rightarrow> proc \<Rightarrow> env" where
  "env_of p0 p1 =
     \<lparr> mktemp = (\<lambda>n. Written), procs = (\<lambda>n. if n = 0 then p0 else p1),
       unlink_ok = (\<lambda>n. True), report_write = None, report_time = 1000,
       on_windows = False, slicer_exists = True, mkdir_error = None \<rparr>"

definition success_artifact :: json where
  "success_artifact = JDict [(ascii ''status'', JStr (ascii ''success''))]"

definition ok_verdict :: verdict where
  "ok_verdict = [(ascii ''status'', JStr (ascii ''success'')), (ascii ''execution_time'', JFloat 2)]"

definition bad_verdict :: verdict where
  "bad_verdict = [(ascii ''status'', JStr (ascii ''error'')), (ascii ''execution_time'', JInt 0)]"

definition three_results :: "(pystr \<times> verdict) list" where
  "three_results = [(ascii ''pt-BR'', ok_verdict), (ascii ''es-419'', bad_verdict),
                    (ascii ''fr-FR'', ok_verdict)]"

text \<open>Two captured lines that differ in the locale they name.\<close>

definition fr_line :: pystr where
  "fr_line = ascii ''fr-FR i18n habilitado: True''"

definition pt_line :: pystr where
  "pt_line = ascii ''pt-BR i18n habilitado: True''"

text \<open>The result artifact of \<open>fr-FR\<close>, well formed with status success, and unreadable.\<close>

definition fr_success_files :: "pystr \<rightharpoonup> exn + json" where
  "fr_success_files = [result_file (ascii ''fr-FR'') \<mapsto> Inr success_artifact]"

definition fr_broken_files :: "pystr \<rightharpoonup> exn + json" where
  "fr_broken_files = [result_file (ascii ''fr-FR'') \<mapsto> Inl (Raised (ascii ''Expecting value''))]"

text \<open>Both children exit with 0 and the second leaves the artifact.\<close>

definition fr_success_env :: env where
  "fr_success_env = env_of (exits 0 [] Map.empty) (exits 0 [] fr_success_files)"

definition fr_success_verdict :: verdict where
  "fr_success_verdict =
     [(ascii ''status'', JStr (ascii ''success'')),
      (ascii ''execution_time'', JFloat 2),
      (ascii ''return_code'', JInt 0),
      (ascii ''slicer_output'', JList [])]"




text \<open>An environment in which no temporary file can be created.\<close>

definition no_space :: exn where
  "no_space = Raised (ascii ''No space left on device'')"





text \<open>Every child exits with 0 at once and leaves no file.\<close>

definition quick_env :: env where
  "quick_env = env_of (exits 0 [] Map.empty) (exits 0 [] Map.empty)"

text \<open>Writing \<open>test_report.json\<close> raises.\<close>

definition no_report_env :: env where
  "no_report_env = fr_success_env\<lparr>report_write := Some no_space\<rparr>"

text \<open>
  The command line \<open>Slicer --languages\<close> followed by the words \<open>ls\<close>, and the one
  without the option.
\<close>

definition line_of :: "pystr list \<Rightarrow> command_line" where
  "line_of ls = \<lparr> given_path = ascii ''Slicer'', given_tutorial = None,
                  given_languages = Some ls, given_output = None, given_timeout = None \<rparr>"

definition plain_line :: command_line where
  "plain_line = \<lparr> given_path = ascii ''Slicer'', given_tutorial = None,
                   given_languages = None, given_output = None, given_timeout = None \<rparr>"

text \<open>The output directory cannot be created.\<close>

definition mkdir_fail_env :: env where
  "mkdir_fail_env =
     quick_env\<lparr>mkdir_error := Some (Raised (ascii ''Permission denied''))\<rparr>"

text \<open>Twenty locales with eleven successes.\<close>

definition twenty_results :: "(pystr \<times> verdict) list" where
  "twenty_results =
     map (\<lambda>i. (ascii ''L'' @ digits i, if i < 11 then ok_verdict else bad_verdict)) [0..<20]"





section \<open>Properties\<close>

lemmas model_defs =
  configure_language_def configure_body_def run_tutorial_test_def test_body_def check_result_def
  config_cmd_def test_cmd_def give_up_def await_exit_def
  run_test_for_language_def create_script_def unlink_quietly_def popen_def emit_def absorb_def
  config_found_def success_msg_found_def result_file_def replace_dash_def merge_result_def
  error_verdict_def no_result_verdict_def config_failed_verdict_def exception_verdict_def
  str_return_code_def json_return_code_def str_int_def strip_def is_space_def ascii_def Let_def

lemmas concrete_defs =
  world0_def runner0_def exits_def hangs_def env_of_def success_artifact_def

subsection \<open>Dictionaries and the fields of the synthesised verdicts\<close>




lemma error_verdict_fields:
  "dict_get (error_verdict r lang x) (ascii ''status'') = Some (JStr (ascii ''error''))"
  "dict_get (error_verdict r lang x) (ascii ''error'') = Some (JStr (str_exn x))"
  "dict_get (error_verdict r lang x) (ascii ''execution_time'') = Some (JInt 0)"
  by (simp_all add: error_verdict_def ascii_def)





lemma out_files_emit [simp]: "out_files (emit es w) = out_files w"
  by (simp add: emit_def)

lemma out_files_unlink [simp]: "out_files (unlink_quietly e n w) = out_files w"
  by (simp add: unlink_quietly_def)

lemma out_files_absorb [simp]: "out_files (absorb p w) = out_files w ++ writes p"
  by (simp add: absorb_def)

lemma out_files_popen [simp]: "out_files (snd (popen e cmd w)) = out_files w"
  by (simp add: popen_def Let_def emit_def split: option.splits)






subsection \<open>Rounding to a double\<close>

text \<open>
  The scaled quotient lies between \<open>2 ^ 52\<close> and \<open>2 ^ 53\<close>, so the significand
  has 53 bits and the result is within a relative error of \<open>2 ^ - 53\<close> of the
  exact quotient; a quotient of equal numbers is exactly 1.
\<close>

lemma bitlen_bounds:
  "0 < n \<Longrightarrow> 2 ^ (bitlen n - 1) \<le> n \<and> n < 2 ^ bitlen n"
proof (induction n rule: bitlen.induct)
  case (1 n)
  show ?case
  proof (cases "n div 2 = 0")
    case True
    with 1 have "n = 1" by (cases n) auto
    then show ?thesis by (simp add: bitlen.simps)
  next
    case False
    then have pos: "0 < n div 2" by simp
    from 1 have n0: "n \<noteq> 0" by simp
    from "1.IH" [OF n0 pos]
    have ih: "2 ^ (bitlen (n div 2) - 1) \<le> n div 2" "n div 2 < 2 ^ bitlen (n div 2)" by auto
    have bl: "bitlen n = Suc (bitlen (n div 2))" using n0 by (subst bitlen.simps) simp
    have bpos: "0 < bitlen (n div 2)" using pos by (subst bitlen.simps) simp
    then obtain k where k: "bitlen (n div 2) = Suc k" by (cases "bitlen (n div 2)") auto
    from ih(1) have "2 * 2 ^ k \<le> 2 * (n div 2)" unfolding k by simp
    then have lo: "2 ^ (bitlen n - 1) \<le> n" unfolding bl k by simp
    from ih(2) have "n < 2 * 2 ^ bitlen (n div 2)" by linarith
    then have hi: "n < 2 ^ bitlen n" unfolding bl by simp
    from lo hi show ?thesis by simp
  qed
qed

lemma rne_near:
  assumes "0 < b"
  shows "\<bar>real (rne a b) - real a / real b\<bar> \<le> 1 / 2"
proof -
  let ?q = "a div b" and ?r = "a mod b"
  have a: "real a = real ?q * real b + real ?r"
    by (metis div_mult_mod_eq of_nat_add of_nat_mult)
  have bp: "0 < real b" using assms by simp
  have quo: "real a / real b = real ?q + real ?r / real b"
    using bp by (simp add: a add_divide_distrib)
  have rlt: "?r < b" using assms by simp
  show ?thesis
  proof (cases "2 * ?r < b")
    case True
    then have "rne a b = ?q" by (simp add: rne_def Let_def)
    moreover from True have "real ?r / real b \<le> 1 / 2"
      using bp by (simp add: field_simps)
    ultimately show ?thesis using quo bp by simp
  next
    case False
    then have ge: "b \<le> 2 * ?r" by simp
    show ?thesis
    proof (cases "b < 2 * ?r")
      case True
      then have "rne a b = ?q + 1" by (simp add: rne_def Let_def)
      moreover from True rlt have "1 / 2 \<le> real ?r / real b \<and> real ?r / real b \<le> 1"
        using bp by (simp add: field_simps; linarith)
      ultimately show ?thesis using quo by (simp; linarith)
    next
      case False
      with ge have eq: "2 * ?r = b" by simp
      then have half: "real ?r / real b = 1 / 2"
        using bp by (simp add: field_simps; metis of_nat_mult of_nat_numeral mult.commute)
      have "rne a b = ?q \<or> rne a b = ?q + 1" using eq by (simp add: rne_def Let_def)
      then show ?thesis using quo half by auto
    qed
  qed
qed


lemma bitlen_pos: "0 < n \<Longrightarrow> 0 < bitlen n"
  by (subst bitlen.simps) simp

lemma scaled_base:
  assumes "0 < a" and "0 < b"
  shows "2 ^ 52 * (b * 2 ^ (bitlen a - (bitlen b + 53))) \<le> a * 2 ^ ((bitlen b + 53) - bitlen a)"
proof -
  let ?la = "bitlen a" and ?lb = "bitlen b"
  from bitlen_bounds [OF assms(1)] have alo: "2 ^ (?la - 1) \<le> a" by simp
  from bitlen_bounds [OF assms(2)] have bhi: "b \<le> 2 ^ ?lb" by simp
  from bitlen_pos [OF assms(1)] have lap: "0 < ?la" .
  show ?thesis
  proof (cases "?la \<le> ?lb + 53")
    case True
    then have v0: "?la - (?lb + 53) = 0" by simp
    let ?u = "(?lb + 53) - ?la"
    have e: "(?la - 1) + ?u = ?lb + 52" using True lap by simp
    have "2 ^ 52 * b \<le> (2::nat) ^ 52 * 2 ^ ?lb" using bhi by simp
    also have "\<dots> = 2 ^ ((?la - 1) + ?u)" unfolding e by (simp add: power_add)
    also have "\<dots> = 2 ^ (?la - 1) * 2 ^ ?u" by (simp add: power_add)
    also have "\<dots> \<le> a * 2 ^ ?u" using alo by simp
    finally show ?thesis unfolding v0 by simp
  next
    case False
    then have u: "(?lb + 53) - ?la = 0" by simp
    let ?v = "?la - (?lb + 53)"
    have e: "?la - 1 = 52 + (?lb + ?v)" using False by simp
    have "2 ^ 52 * (b * 2 ^ ?v) \<le> (2::nat) ^ 52 * (2 ^ ?lb * 2 ^ ?v)" using bhi by simp
    also have "\<dots> = 2 ^ (?la - 1)" unfolding e by (simp add: power_add)
    also have "\<dots> \<le> a" by (rule alo)
    finally show ?thesis unfolding u by simp
  qed
qed

lemma to_double_unfold:
  "0 < a \<Longrightarrow> to_double a b =
     (rne (a * 2 ^ scale_up a b) (b * 2 ^ scale_down a b) * 2 ^ scale_down a b, 2 ^ scale_up a b)"
  by (simp add: to_double_def)

lemma scaled_lower:
  assumes "0 < a" and "0 < b"
  shows "2 ^ 52 * (b * 2 ^ scale_down a b) \<le> a * 2 ^ scale_up a b"
  using scaled_base [OF assms]
  by (auto simp: scale_down_def scale_up_def Let_def)

lemma scaled_upper:
  assumes "0 < a" and "0 < b"
  shows "a * 2 ^ scale_up a b < 2 ^ 53 * (b * 2 ^ scale_down a b)"
proof -
  let ?la = "bitlen a" and ?lb = "bitlen b"
  let ?u = "(?lb + 53) - ?la" and ?v0 = "?la - (?lb + 53)"
  from bitlen_bounds [OF assms(1)] have ahi: "a < 2 ^ ?la" by simp
  from bitlen_bounds [OF assms(2)] have blo: "2 ^ (?lb - 1) \<le> b" by simp
  from bitlen_pos [OF assms(2)] have lbp: "0 < ?lb" .
  have top: "a * 2 ^ ?u < 2 ^ 54 * (b * 2 ^ ?v0)"
  proof (cases "?la \<le> ?lb + 53")
    case True
    then have v0: "?v0 = 0" by simp
    have e: "?la + ?u = 54 + (?lb - 1)" using True lbp by simp
    have "a * 2 ^ ?u < 2 ^ ?la * 2 ^ ?u" using ahi by simp
    also have "\<dots> = 2 ^ (?la + ?u)" by (simp add: power_add)
    also have "\<dots> = 2 ^ 54 * 2 ^ (?lb - 1)" unfolding e by (simp add: power_add)
    also have "\<dots> \<le> 2 ^ 54 * b" using blo by simp
    finally show ?thesis unfolding v0 by simp
  next
    case False
    then have u: "?u = 0" by simp
    have e: "?la = 54 + ((?lb - 1) + ?v0)" using False lbp by simp
    have "a < 2 ^ ?la" by (rule ahi)
    also have "\<dots> = 2 ^ 54 * (2 ^ (?lb - 1) * 2 ^ ?v0)"
      by (subst e) (simp add: power_add)
    also have "\<dots> \<le> 2 ^ 54 * (b * 2 ^ ?v0)" using blo by simp
    finally show ?thesis unfolding u by simp
  qed
  show ?thesis
  proof (cases "2 ^ 53 * (b * 2 ^ ?v0) \<le> a * 2 ^ ?u")
    case True
    then have "scale_down a b = ?v0 + 1" by (simp add: scale_down_def scale_up_def Let_def)
    with top show ?thesis by (simp add: scale_up_def)
  next
    case False
    then have "scale_down a b = ?v0" by (simp add: scale_down_def scale_up_def Let_def)
    with False show ?thesis by (simp add: scale_up_def)
  qed
qed


lemma rne_exact:
  assumes "0 < b"
  shows "rne (n * b) b = n"
  using assms by (simp add: rne_def Let_def)

lemma rne_le:
  assumes "0 < b" and "a \<le> n * b"
  shows "rne a b \<le> n"
proof -
  have "real (rne a b) \<le> real a / real b + 1 / 2"
    using rne_near [OF assms(1), of a] by linarith
  also have "real a / real b \<le> real n"
  proof -
    have "real a \<le> real n * real b" using assms(2) by (metis of_nat_le_iff of_nat_mult)
    then show ?thesis using assms(1) by (simp add: field_simps)
  qed
  finally have "real (rne a b) < real n + 1" by simp
  then show ?thesis by linarith
qed

lemma rne_ge:
  assumes "0 < b" and "n * b \<le> a"
  shows "n \<le> rne a b"
proof -
  have "real a / real b - 1 / 2 \<le> real (rne a b)"
    using rne_near [OF assms(1), of a] by linarith
  moreover have "real n \<le> real a / real b"
  proof -
    have "real n * real b \<le> real a" using assms(2) by (metis of_nat_le_iff of_nat_mult)
    then show ?thesis using assms(1) by (simp add: field_simps)
  qed
  ultimately have "real n - 1 < real (rne a b)" by simp
  then show ?thesis by linarith
qed

lemma mantissa_range:
  assumes "0 < a" and "0 < b"
  shows "2 ^ 52 \<le> rne (a * 2 ^ scale_up a b) (b * 2 ^ scale_down a b)
       \<and> rne (a * 2 ^ scale_up a b) (b * 2 ^ scale_down a b) \<le> 2 ^ 53"
proof -
  have bp: "0 < b * 2 ^ scale_down a b" using assms(2) by simp
  from rne_ge [OF bp scaled_lower [OF assms]]
       rne_le [OF bp less_imp_le [OF scaled_upper [OF assms]]]
  show ?thesis by simp
qed

lemma abs_scale:
  fixes m q s :: real
  assumes "0 < s"
  shows "\<bar>m * s - q * s\<bar> = \<bar>m - q\<bar> * s"
proof -
  have "m * s - q * s = (m - q) * s" by (simp add: left_diff_distrib)
  then show ?thesis using assms by (simp add: abs_mult)
qed

lemma to_double_near:
  assumes "0 < b"
  shows "\<bar>float_value (to_double a b) - real a / real b\<bar> \<le> real a / real b / 2 ^ 53"
proof (cases "a = 0")
  case True
  then show ?thesis by (simp add: to_double_def float_value_def)
next
  case False
  then have ap: "0 < a" by simp
  let ?u = "scale_up a b" and ?v = "scale_down a b"
  let ?A = "a * 2 ^ ?u" and ?B = "b * 2 ^ ?v"
  define m where "m = real (rne ?A ?B)"
  define q where "q = real ?A / real ?B"
  define s where "s = (2::real) ^ ?v / 2 ^ ?u"
  have bp: "0 < ?B" using assms by simp
  have sp: "0 < s" unfolding s_def by simp
  have near: "\<bar>m - q\<bar> \<le> 1 / 2" unfolding m_def q_def by (rule rne_near [OF bp])
  have val: "float_value (to_double a b) = m * s"
    unfolding m_def s_def by (simp add: to_double_unfold [OF ap] float_value_def)
  have x: "real a / real b = q * s" unfolding q_def s_def using assms by simp
  have "real ((2::nat) ^ 52 * ?B) \<le> real ?A"
    using scaled_lower [OF ap assms] by (simp only: of_nat_le_iff)
  then have qlo: "2 ^ 52 \<le> q" unfolding q_def using bp by (simp add: field_simps)
  have "\<bar>float_value (to_double a b) - real a / real b\<bar> = \<bar>m - q\<bar> * s"
    unfolding val x by (rule abs_scale [OF sp])
  also have "\<dots> \<le> 1 / 2 * s" using near sp by (simp add: mult_right_mono)
  also have "\<dots> \<le> q / 2 ^ 53 * s"
  proof -
    have "(1::real) / 2 \<le> q / 2 ^ 53" using qlo by simp
    then show ?thesis using sp by (simp only: mult_right_mono less_imp_le)
  qed
  also have "\<dots> = real a / real b / 2 ^ 53" unfolding x by simp
  finally show ?thesis .
qed

lemma to_double_same:
  assumes "0 < a"
  shows "to_double a a = (2 ^ 53, 2 ^ 53)"
proof -
  have u: "scale_up a a = 53" by (simp add: scale_up_def)
  have v: "scale_down a a = 1" by (simp add: scale_down_def u Let_def)
  have "rne (a * 2 ^ 53) (a * 2 ^ 1) = 2 ^ 52"
    using rne_exact [of "a * 2" "2 ^ 52"] assms by (simp add: mult.commute mult.left_commute)
  then show ?thesis by (simp add: to_double_unfold [OF assms] u v)
qed


lemma to_double_den_pos: "0 < snd (to_double a b)"
  by (simp add: to_double_def)

lemma to_double_value: "float_value (to_double a b) = real (fst (to_double a b)) / real (snd (to_double a b))"
  by (simp add: float_value_def)

lemma rate_near:
  assumes "0 < n"
  shows "\<bar>rate_of s n - real s / real n * 100\<bar> \<le> real s / real n * 100 / 2 ^ 51"
proof -
  define x where "x = real s / real n"
  define x1 where "x1 = float_value (to_double s n)"
  have x0: "0 \<le> x" unfolding x_def by simp
  have a: "\<bar>x1 - x\<bar> \<le> x / 2 ^ 53" unfolding x1_def x_def by (rule to_double_near [OF assms])
  have prod: "real (fst (to_double s n) * 100) / real (snd (to_double s n)) = x1 * 100"
    unfolding x1_def by (simp add: float_value_def)
  have b: "\<bar>rate_of s n - x1 * 100\<bar> \<le> x1 * 100 / 2 ^ 53"
    unfolding rate_of_def float_times_def prod [symmetric]
    by (rule to_double_near [OF to_double_den_pos])
  from a have x1hi: "x1 \<le> x + x / 2 ^ 53" by linarith
  have small: "x / 2 ^ 53 \<le> x" using x0 by (simp add: field_simps)
  from x1hi small have x1hi2: "x1 \<le> 2 * x" by linarith
  have "rate_of s n - x * 100 = (rate_of s n - x1 * 100) + (x1 - x) * 100"
    by (simp add: algebra_simps)
  then have "\<bar>rate_of s n - x * 100\<bar> \<le> \<bar>rate_of s n - x1 * 100\<bar> + \<bar>(x1 - x) * 100\<bar>"
    by (simp only: abs_triangle_ineq)
  also have "\<dots> = \<bar>rate_of s n - x1 * 100\<bar> + \<bar>x1 - x\<bar> * 100"
    by (simp only: abs_mult abs_numeral)
  also have "\<dots> \<le> x1 * 100 / 2 ^ 53 + x / 2 ^ 53 * 100"
    by (intro add_mono mult_right_mono a b) simp
  also have "\<dots> \<le> 2 * x * 100 / 2 ^ 53 + x / 2 ^ 53 * 100"
    using x1hi2 by (simp add: divide_right_mono)
  also have "\<dots> \<le> x * 100 / 2 ^ 51" using x0 by (simp add: field_simps)
  finally show ?thesis unfolding x_def .
qed

lemma to_double_hundred: "to_double (2 ^ 53 * 100) (2 ^ 53) = (100 * 2 ^ 47, 2 ^ 47)"
  by (simp add: to_double_def scale_up_def scale_down_def bitlen.simps rne_def Let_def)

lemma rate_all:
  assumes "0 < n"
  shows "rate_of n n = 100"
proof -
  have "float_times (to_double n n) 100 = to_double (2 ^ 53 * 100) (2 ^ 53)"
    by (simp only: to_double_same [OF assms] float_times_def fst_conv snd_conv)
  then have "rate_of n n = float_value (100 * 2 ^ 47, 2 ^ 47)"
    by (simp only: rate_of_def to_double_hundred)
  then show ?thesis by (simp add: float_value_def)
qed

lemma rate_none: "rate_of 0 n = 0"
  by (simp add: rate_of_def float_times_def to_double_def float_value_def)

lemma rate_below:
  assumes "s < n" and "n \<le> 2 ^ 51"
  shows "rate_of s n < 100"
proof -
  have np: "0 < n" using assms(1) by simp
  define x where "x = real s / real n * 100"
  from rate_near [OF np, of s] have "rate_of s n \<le> x + x / 2 ^ 51" unfolding x_def by linarith
  moreover have "x + x / 2 ^ 51 < 100"
  proof -
    have s: "real s \<le> real n - 1" using assms(1) by linarith
    have n: "real n \<le> 2 ^ 51" using assms(2) by (metis of_nat_le_iff of_nat_numeral of_nat_power)
    have "x \<le> (real n - 1) / real n * 100"
      unfolding x_def using s np by (simp add: divide_right_mono)
    then have xle: "x \<le> 100 - 100 / real n" using np by (simp add: field_simps)
    have "100 / (2::real) ^ 51 \<le> 100 / real n"
      by (rule divide_left_mono) (use n np in auto)
    with xle have x2: "x \<le> 100 - 100 / 2 ^ 51" by linarith
    have "x + x / 2 ^ 51 = x * (1 + 1 / 2 ^ 51)" by (simp add: field_simps)
    also have "\<dots> \<le> (100 - 100 / 2 ^ 51) * (1 + 1 / 2 ^ 51)"
      using x2 by (simp add: mult_right_mono)
    also have "\<dots> < 100" by (simp add: field_simps)
    finally show ?thesis .
  qed
  ultimately show ?thesis by linarith
qed

subsection \<open>The summary of the report\<close>

lemma line_708:
  assumes "0 < n"
  shows "(case true_divide s n of Inl x \<Rightarrow> Inl x | Inr q \<Rightarrow> Inr (float_value (float_times q 100)))
           = (Inr (rate_of s n) :: exn + real)"
  using assms by (simp add: true_divide_def rate_of_def)

lemma make_summary_value:
  "make_summary res =
     Inr \<lparr> total_tests = int (length res),
           successful_tests = int (length (filter is_success (map snd res))),
           failed_tests = int (length res) - int (length (filter is_success (map snd res))),
           success_rate = (if res = [] then 0
                           else rate_of (length (filter is_success (map snd res))) (length res)) \<rparr>"
proof (cases "res = []")
  case True
  then show ?thesis by (simp add: make_summary_def)
next
  case False
  then have n: "0 < length res" by simp
  show ?thesis
    unfolding make_summary_def Let_def
    using False n by (simp add: line_708 [OF n])
qed

lemma generate_report_made:
  assumes "fst (generate_report e r res w) = Inr rep"
  shows "make_summary res = Inr (summary rep)"
  using assms
  by (auto simp: generate_report_def Let_def split: sum.splits option.splits)

lemma generate_report_written:
  assumes "report_write e = None" and "make_summary res = Inr s"
  shows "out_files (snd (generate_report e r res w)) (ascii ''test_report.json'') =
           Some (Inr (json_of_report \<lparr> tutorial = tutorial_name r, timestamp = report_time e,
                                       summary = s, results = res \<rparr>))"
  using assms
  by (auto simp: generate_report_def Let_def split: option.splits)

lemma all_pass_count:
  "(length (filter P xs) = length xs) = list_all P xs"
proof (induction xs)
  case Nil
  show ?case by simp
next
  case (Cons x xs)
  show ?case
  proof (cases "P x")
    case True
    with Cons show ?thesis by simp
  next
    case False
    have "length (filter P xs) \<noteq> Suc (length xs)"
      using length_filter_le [of P xs] by linarith
    with False show ?thesis by simp
  qed
qed

lemma three_results_count:
  "length three_results = 3" "length (filter is_success (map snd three_results)) = 2"
  "three_results \<noteq> []" "\<not> list_all is_success (map snd three_results)"
  by (simp_all add: three_results_def is_success_def ok_verdict_def bad_verdict_def ascii_def)

lemma twenty_results_count:
  "length twenty_results = 20" "length (filter is_success (map snd twenty_results)) = 11"
  by (simp_all add: twenty_results_def is_success_def ok_verdict_def bad_verdict_def ascii_def
        upt_rec comp_def)

lemma rate_two_thirds: "rate_of 2 3 = 9382499223688532 / 2 ^ 47"
  by (simp add: rate_of_def float_times_def to_double_def scale_up_def scale_down_def
        bitlen.simps rne_def float_value_def Let_def)

lemma rate_eleven_twentieths: "rate_of 11 20 = 55 + 1 / 2 ^ 47"
  by (simp add: rate_of_def float_times_def to_double_def scale_up_def scale_down_def
        bitlen.simps rne_def float_value_def Let_def)

text \<open>
  C4, as stated, fails: the rate is what two rounded operations leave. With two
  successes out of three it is the double \<open>9382499223688532 / 2 ^ 47\<close> (printed
  66.66666666666666), not 200/3, which no double is; with eleven out of twenty it is
  \<open>55 + 2 ^ - 47\<close> (printed 55.00000000000001), although 55 is a double.
\<close>

theorem success_rate_is_rounded:
  "map_sum id success_rate (make_summary three_results) = Inr (9382499223688532 / 2 ^ 47)
   \<and> (9382499223688532 / 2 ^ 47 :: real) \<noteq> 2 / 3 * 100
   \<and> map_sum id success_rate (make_summary twenty_results) = Inr (55 + 1 / 2 ^ 47)
   \<and> (55 + 1 / 2 ^ 47 :: real) \<noteq> 11 / 20 * 100
   \<and> map_sum id (success_rate \<circ> summary)
        (fst (generate_report quick_env runner0 three_results world0))
      = Inr (9382499223688532 / 2 ^ 47)"
proof -
  have a: "map_sum id success_rate (make_summary three_results) = Inr (9382499223688532 / 2 ^ 47)"
    by (simp only: make_summary_value three_results_count) (simp add: rate_two_thirds)
  have b: "map_sum id success_rate (make_summary twenty_results) = Inr (55 + 1 / 2 ^ 47)"
    by (simp only: make_summary_value twenty_results_count) (simp add: rate_eleven_twentieths twenty_results_def)
  have c: "console_report three_results = None"
    by (simp add: three_results_def console_line_def ok_verdict_def bad_verdict_def format_f1_def
          ascii_def Let_def)
  have d: "map_sum id (success_rate \<circ> summary)
             (fst (generate_report quick_env runner0 three_results world0))
           = Inr (9382499223688532 / 2 ^ 47)"
    by (simp only: generate_report_def make_summary_value three_results_count)
       (simp add: rate_two_thirds c quick_env_def env_of_def Let_def)
  from a b d show ?thesis by simp
qed

text \<open>
  C4, amended. For every mapping of N entries of which S have status success,
  \<open>generate_report\<close> computes its summary without raising (the division of line 708
  stands behind the guard, and would raise on a total of zero): \<open>total_tests\<close> = N,
  \<open>successful_tests\<close> = S, \<open>failed_tests\<close> = N - S, not negative. The rate is 0 for
  the empty mapping; otherwise it is the double that the correctly rounded division S / N
  followed by the correctly rounded product with 100 gives, which is within a relative
  error of \<open>2 ^ - 51\<close> of S / N * 100, is exactly 100 when S = N, and is below 100
  when S < N (for N up to \<open>2 ^ 51\<close>). That summary is the one of the report when
  \<open>generate_report\<close> returns one, and the one written to \<open>test_report.json\<close>
  whenever the file can be written.
\<close>

theorem generate_report_summary:
  "(\<exists>s. make_summary res = Inr s)
   \<and> (make_summary res = Inr s \<longrightarrow>
        total_tests s = int (length res)
      \<and> successful_tests s = int (length (filter is_success (map snd res)))
      \<and> failed_tests s = total_tests s - successful_tests s
      \<and> successful_tests s + failed_tests s = total_tests s
      \<and> 0 \<le> failed_tests s
      \<and> (res = [] \<longrightarrow> success_rate s = 0)
      \<and> (res \<noteq> [] \<longrightarrow>
            success_rate s = rate_of (length (filter is_success (map snd res))) (length res)
          \<and> \<bar>success_rate s
                - real (length (filter is_success (map snd res))) / real (length res) * 100\<bar>
              \<le> real (length (filter is_success (map snd res))) / real (length res) * 100 / 2 ^ 51)
      \<and> (res \<noteq> [] \<and> list_all is_success (map snd res) \<longrightarrow> success_rate s = 100)
      \<and> (res \<noteq> [] \<and> length res \<le> 2 ^ 51 \<and> \<not> list_all is_success (map snd res) \<longrightarrow>
            success_rate s < 100)
      \<and> (fst (generate_report e r res w) = Inr rep \<longrightarrow> summary rep = s)
      \<and> (report_write e = None \<longrightarrow>
            out_files (snd (generate_report e r res w)) (ascii ''test_report.json'') =
              Some (Inr (json_of_report \<lparr> tutorial = tutorial_name r, timestamp = report_time e,
                                          summary = s, results = res \<rparr>))))
   \<and> true_divide n 0 = Inl (Raised (ascii ''division by zero''))"
proof (intro conjI impI)
  show "\<exists>s. make_summary res = Inr s" using make_summary_value [of res] by blast
  show "true_divide n 0 = Inl (Raised (ascii ''division by zero''))"
    by (simp add: true_divide_def)
next
  let ?N = "length res"
  let ?S = "length (filter is_success (map snd res))"
  assume ms: "make_summary res = Inr s"
  then have s: "s = \<lparr> total_tests = int ?N, successful_tests = int ?S,
                       failed_tests = int ?N - int ?S,
                       success_rate = (if res = [] then 0 else rate_of ?S ?N) \<rparr>"
    unfolding make_summary_value by simp
  have le: "?S \<le> ?N" using length_filter_le [of is_success "map snd res"] by simp
  show "total_tests s = int ?N" "successful_tests s = int ?S"
       "failed_tests s = total_tests s - successful_tests s"
       "successful_tests s + failed_tests s = total_tests s" "0 \<le> failed_tests s"
    using le by (simp_all add: s)
  { assume "res = []" then show "success_rate s = 0" by (simp add: s) }
  { assume ne: "res \<noteq> []"
    then have n: "0 < ?N" by simp
    show r: "success_rate s = rate_of ?S ?N" using ne by (simp add: s)
    show "\<bar>success_rate s - real ?S / real ?N * 100\<bar> \<le> real ?S / real ?N * 100 / 2 ^ 51"
      unfolding r using rate_near [OF n, of ?S] by simp }
  { assume a: "res \<noteq> [] \<and> list_all is_success (map snd res)"
    then have n: "0 < ?N" by simp
    from a have "?S = ?N" using all_pass_count [of is_success "map snd res"] by simp
    then have "rate_of ?S ?N = rate_of ?N ?N" by simp
    also have "\<dots> = 100" by (rule rate_all [OF n])
    finally show "success_rate s = 100" using a by (simp add: s) }
  { assume a: "res \<noteq> [] \<and> length res \<le> 2 ^ 51 \<and> \<not> list_all is_success (map snd res)"
    then have ne: "?S \<noteq> ?N" using all_pass_count [of is_success "map snd res"] by simp
    from le ne have lt: "?S < ?N" by (rule le_neq_implies_less)
    from a have b: "?N \<le> 2 ^ 51" by simp
    from rate_below [OF lt b] a show "success_rate s < 100" by (simp add: s) }
  { assume "fst (generate_report e r res w) = Inr rep"
    from generate_report_made [OF this] ms show "summary rep = s" by simp }
  { assume "report_write e = None"
    from generate_report_written [OF this ms]
    show "out_files (snd (generate_report e r res w)) (ascii ''test_report.json'') =
              Some (Inr (json_of_report \<lparr> tutorial = tutorial_name r, timestamp = report_time e,
                                          summary = s, results = res \<rparr>))" . }
qed

text \<open>
  Three verdicts, two of them successes, on a machine without faults: the counts are 3,
  2 and 1, the rate is within the bound of 200/3 and below 100, the report returned and
  the file hold that summary. One verdict that is a success: the rate is 100.
\<close>

theorem generate_report_summary_witness:
  "\<exists>s. make_summary three_results = Inr s
     \<and> total_tests s = 3 \<and> successful_tests s = 2 \<and> failed_tests s = 1
     \<and> \<bar>success_rate s - 2 / 3 * 100\<bar> \<le> 2 / 3 * 100 / 2 ^ 51
     \<and> success_rate s < 100
     \<and> fst (generate_report quick_env runner0 three_results world0) =
          Inr \<lparr> tutorial = ascii ''TestTutorial'', timestamp = 1000,
                summary = s, results = three_results \<rparr>
     \<and> out_files (snd (generate_report quick_env runner0 three_results world0))
          (ascii ''test_report.json'') =
        Some (Inr (json_of_report \<lparr> tutorial = ascii ''TestTutorial'', timestamp = 1000,
                                    summary = s, results = three_results \<rparr>))
     \<and> (\<exists>s1. make_summary [(ascii ''fr-FR'', fr_success_verdict)] = Inr s1
            \<and> total_tests s1 = 1 \<and> success_rate s1 = 100)"
proof -
  from generate_report_summary [of three_results]
  obtain s where ms: "make_summary three_results = Inr s" by blast
  have env: "report_write quick_env = None" "report_time quick_env = 1000"
            "tutorial_name runner0 = ascii ''TestTutorial''"
    by (simp_all add: quick_env_def env_of_def runner0_def)
  have con: "console_report three_results = None"
    by (simp add: three_results_def console_line_def ok_verdict_def bad_verdict_def format_f1_def
          ascii_def Let_def)
  have rep: "fst (generate_report quick_env runner0 three_results world0) =
          Inr \<lparr> tutorial = ascii ''TestTutorial'', timestamp = 1000,
                summary = s, results = three_results \<rparr>"
    by (simp add: generate_report_def ms env con Let_def)
  note g = generate_report_summary
             [of three_results s quick_env runner0 world0
                 "\<lparr> tutorial = ascii ''TestTutorial'', timestamp = 1000, summary = s,
                    results = three_results \<rparr>",
              THEN conjunct2, THEN conjunct1, rule_format, OF ms, unfolded three_results_count]
  note ne = three_results_count(3,4)
  from g have c1: "total_tests s = 3" "successful_tests s = 2" "failed_tests s = 1"
    by simp_all
  from g ne have "success_rate s = rate_of 2 3
      \<and> \<bar>success_rate s - real 2 / real 3 * 100\<bar> \<le> real 2 / real 3 * 100 / 2 ^ 51"
    by blast
  from this [THEN conjunct2]
  have c2: "\<bar>success_rate s - 2 / 3 * 100\<bar> \<le> 2 / 3 * 100 / 2 ^ 51" by simp
  from g ne have c3: "success_rate s < 100" by simp
  from g env have c4: "out_files (snd (generate_report quick_env runner0 three_results world0))
          (ascii ''test_report.json'') =
        Some (Inr (json_of_report \<lparr> tutorial = ascii ''TestTutorial'', timestamp = 1000,
                                    summary = s, results = three_results \<rparr>))"
    by simp
  let ?one = "[(ascii ''fr-FR'', fr_success_verdict)]"
  from generate_report_summary [of ?one]
  obtain s1 where ms1: "make_summary ?one = Inr s1" by blast
  have all1: "?one \<noteq> []" "list_all is_success (map snd ?one)" "int (length ?one) = 1"
    by (simp_all add: is_success_def fr_success_verdict_def ascii_def)
  note h = generate_report_summary [of ?one s1, THEN conjunct2, THEN conjunct1, rule_format, OF ms1]
  from h all1 have d1: "total_tests s1 = 1" by simp
  from h all1 have d2: "success_rate s1 = 100" by blast
  have c5: "\<exists>s1. make_summary ?one = Inr s1 \<and> total_tests s1 = 1 \<and> success_rate s1 = 100"
    by (rule exI [of _ s1]) (intro conjI ms1 d1 d2)
  show ?thesis
    by (rule exI [of _ s]) (intro conjI ms c1 c2 c3 rep c4 c5)
qed

subsection \<open>The markers scanned after a non-zero exit of configure\<close>

text \<open>
  C1. The claim asks that after a non-zero exit the marker scanned for is the one of the
  requested locale. The scan of line 145 names \<open>pt-BR\<close> whatever the locale: with
  \<open>fr-FR\<close> requested and exit status 1, a captured line confirming \<open>fr-FR\<close> gives
  \<open>False\<close>, while a captured line confirming \<open>pt-BR\<close> gives \<open>True\<close>.
\<close>

theorem configure_marker_fixed_to_pt_BR:
  "map_option fst (configure_language (env_of (exits 1 [fr_line] Map.empty) hangs) runner0
      (ascii ''fr-FR'') world0) = Some (Inr False)
   \<and> map_option fst (configure_language (env_of (exits 1 [pt_line] Map.empty) hangs) runner0
      (ascii ''fr-FR'') world0) = Some (Inr True)"
  by (simp add: model_defs concrete_defs fr_line_def pt_line_def)

subsection \<open>A run that exceeds its timeout\<close>

text \<open>
  C2. The claim asks for a verdict of status timeout. A child still alive 301 seconds
  after its start, with the timeout at 300, is sent \<open>terminate()\<close> and then
  \<open>kill()\<close>, and the elapsed time recorded is 306; but the verdict is the one of
  a missing result file, with status error.
\<close>

theorem timeout_run_reports_error:
  "map_option fst (run_tutorial_test (env_of hangs hangs) runner0 (ascii ''fr-FR'') world0) =
     Some (Inr [(ascii ''language'', JStr (ascii ''fr-FR'')),
                (ascii ''tutorial'', JStr (ascii ''TestTutorial'')),
                (ascii ''status'', JStr (ascii ''error'')),
                (ascii ''error'', JStr (ascii ''No result file found. Return code: -9'')),
                (ascii ''slicer_output'', JList []),
                (ascii ''execution_time'', JFloat 306),
                (ascii ''return_code'', JInt (- 9))])
   \<and> map_option (trail \<circ> snd) (run_tutorial_test (env_of hangs hangs) runner0 (ascii ''fr-FR'') world0) =
     Some [Popen [Lit (ascii ''Slicer''), Lit (ascii ''--no-splash''), Lit (ascii ''--no-main-window''),
                  Lit (ascii ''--disable-cli-modules''), Lit (ascii ''--python-script''), TempPath 0],
           Terminate, Kill, Unlink 0]"
  by (simp add: model_defs concrete_defs digits.simps)

subsection \<open>Where the status of a verdict comes from\<close>





subsection \<open>A result file that cannot be read\<close>

text \<open>
  C10. When the script was written, the child was launched, its supervision ended, and
  the result file is there but opening or parsing it raises \<open>x\<close>, then
  \<open>_run_tutorial_test\<close> returns (it does not raise) the verdict of status error that
  carries \<open>str(x)\<close>, with \<open>execution_time\<close> the integer 0 whatever the clock read.
\<close>

theorem unreadable_artifact_error_verdict:
  assumes "mktemp e (next_temp w) = Written"
      and "launch_error (procs e (spawned w)) = None"
      and "test_loop (real_of_int (slicer_timeout r)) (procs e (spawned w))
             (ticks (procs e (spawned w))) [] = Some (rc, out, sigs)"
      and "(out_files w ++ writes (procs e (spawned w))) (result_file lang) = Some (Inl x)"
  shows "map_option fst (run_tutorial_test e r lang w) = Some (Inr (error_verdict r lang x))
       \<and> dict_get (error_verdict r lang x) (ascii ''status'') = Some (JStr (ascii ''error''))
       \<and> dict_get (error_verdict r lang x) (ascii ''error'') = Some (JStr (str_exn x))
       \<and> dict_get (error_verdict r lang x) (ascii ''execution_time'') = Some (JInt 0)"
  using assms
  by (simp add: run_tutorial_test_def create_script_def test_body_def popen_def Let_def
        check_result_def emit_def absorb_def error_verdict_fields)

theorem unreadable_artifact_error_verdict_witness:
  "map_option fst (run_tutorial_test (env_of (exits 1 [] fr_broken_files) hangs) runner0
       (ascii ''fr-FR'') world0) =
     Some (Inr (error_verdict runner0 (ascii ''fr-FR'') (Raised (ascii ''Expecting value''))))
   \<and> dict_get (error_verdict runner0 (ascii ''fr-FR'') (Raised (ascii ''Expecting value'')))
        (ascii ''execution_time'') = Some (JInt 0)"
proof -
  let ?e = "env_of (exits 1 [] fr_broken_files) hangs"
  have a: "mktemp ?e (next_temp world0) = Written"
    by (simp add: concrete_defs)
  have b: "launch_error (procs ?e (spawned world0)) = None"
    by (simp add: concrete_defs)
  have c: "test_loop (real_of_int (slicer_timeout runner0)) (procs ?e (spawned world0))
             (ticks (procs ?e (spawned world0))) [] = Some (Some 1, [], [])"
    by (simp add: concrete_defs)
  have d: "(out_files world0 ++ writes (procs ?e (spawned world0))) (result_file (ascii ''fr-FR''))
             = Some (Inl (Raised (ascii ''Expecting value'')))"
    by (simp add: concrete_defs fr_broken_files_def)
  show ?thesis
    using unreadable_artifact_error_verdict [OF a b c d] by simp
qed

subsection \<open>What a phase leaves of the world\<close>

lemma temp_files_emit [simp]: "temp_files (emit es w) = temp_files w"
  by (simp add: emit_def)

lemma temp_files_absorb [simp]: "temp_files (absorb p w) = temp_files w"
  by (simp add: absorb_def)


lemma next_temp_emit [simp]: "next_temp (emit es w) = next_temp w"
  by (simp add: emit_def)

lemma next_temp_absorb [simp]: "next_temp (absorb p w) = next_temp w"
  by (simp add: absorb_def)

lemma spawned_emit [simp]: "spawned (emit es w) = spawned w"
  by (simp add: emit_def)

lemma spawned_absorb [simp]: "spawned (absorb p w) = spawned w"
  by (simp add: absorb_def)

lemma give_up_frame [simp]:
  "temp_files (give_up p w) = temp_files w" "next_temp (give_up p w) = next_temp w"
  "spawned (give_up p w) = spawned w"
  by (simp_all add: give_up_def)















subsection \<open>The transient script after the call\<close>







subsection \<open>The two phases of one locale\<close>










subsection \<open>The console line of the batch loop\<close>











subsection \<open>The keys of the batch result\<close>





subsection \<open>The verdicts of the batch\<close>







lemma returned_with:
  assumes "map_option fst x = Some a"
  shows "\<exists>b. x = Some (a, b)"
  using assms by (cases x) auto







subsection \<open>The exit status of the driver\<close>

text \<open>
  Inside the \<open>try\<close> block: once the parser has returned, the executable has been
  found, the runner has been built and the batch has returned, the exit status is 3 when
  \<open>generate_report\<close> raises and the one chosen from the rate of the report
  otherwise.
\<close>

lemma main_reached:
  assumes "parse_args c = Inr a" and "slicer_exists e" and "mkdir_error e = None"
      and "run_all_tests e (make_runner a) (Some (languages a)) w = Some (res, w1)"
  shows "map_option fst (main e c w) =
           Some (case fst (generate_report e (make_runner a) res w1) of
                   Inl x \<Rightarrow> 3
                 | Inr rep \<Rightarrow> exit_status (success_rate (summary rep)))"
  using assms
  by (cases "generate_report e (make_runner a) res w1")
     (auto simp: main_def split: sum.splits)

text \<open>
  C5. The claim asks for status 3 when a fault of the driver is handled by nothing.
  The \<open>try\<close> block of lines 782 to 806 does give 3 for a fault raised inside it: a
  report that cannot be written ends the run of one successful locale with 3. But the
  runner is built at line 776, before the \<open>try\<close>, and its constructor creates the
  output directory: when \<open>mkdir\<close> raises, nothing catches the fault and the exit
  status is 1, the status of a success rate between 50 and 100.
\<close>

theorem mkdir_fault_exit_status:
  "main mkdir_fail_env plain_line world0 = Some (1, world0)
   \<and> map_option fst (main no_report_env (line_of [ascii ''fr-FR'']) world0) = Some 3"
proof -
  have a: "main mkdir_fail_env plain_line world0 = Some (1, world0)"
    by (simp add: main_def parse_args_def plain_line_def mkdir_fail_env_def quick_env_def
          env_of_def)
  have p: "parse_args (line_of [ascii ''fr-FR'']) =
             Inr \<lparr> slicer_path = ascii ''Slicer'', arg_tutorial = ascii ''TestTutorial'',
                   languages = [ascii ''fr-FR''], arg_output = None, arg_timeout = 300 \<rparr>"
    by (simp add: parse_args_def line_of_def SLICER_TIMEOUT_def)
  have r: "make_runner \<lparr> slicer_path = ascii ''Slicer'', arg_tutorial = ascii ''TestTutorial'',
                   languages = [ascii ''fr-FR''], arg_output = None, arg_timeout = 300 \<rparr>
             = runner0"
    by (simp add: make_runner_def runner0_def ascii_def)
  have b: "map_option fst (run_all_tests no_report_env runner0 (Some [ascii ''fr-FR'']) world0)
             = Some [(ascii ''fr-FR'', fr_success_verdict)]"
    by (simp add: run_all_tests_def log_result_def format_f1_def model_defs concrete_defs
          fr_success_env_def fr_success_files_def fr_success_verdict_def no_report_env_def)
  from returned_with [OF b] obtain w1 where
    b': "run_all_tests no_report_env runner0 (Some [ascii ''fr-FR'']) world0
           = Some ([(ascii ''fr-FR'', fr_success_verdict)], w1)" by blast
  have e: "slicer_exists no_report_env" "mkdir_error no_report_env = None"
          "report_write no_report_env = Some no_space"
    by (simp_all add: no_report_env_def fr_success_env_def env_of_def)
  have g: "fst (generate_report no_report_env runner0 [(ascii ''fr-FR'', fr_success_verdict)] w1)
             = Inl no_space"
    by (simp add: generate_report_def make_summary_value e Let_def)
  have c: "map_option fst (main no_report_env (line_of [ascii ''fr-FR'']) world0) = Some 3"
    using main_reached [OF p e(1) e(2), of world0 "[(ascii ''fr-FR'', fr_success_verdict)]" w1]
          b' g
    by (simp add: r)
  from a c show ?thesis by (simp only: simp_thms)
qed

subsection \<open>An empty list of locales\<close>

lemma parse_args_languages:
  assumes "parse_args c = Inr a"
  shows "languages a \<noteq> []"
proof (cases "given_languages c")
  case None
  with assms have "languages a = DEFAULT_LANGUAGES" by (auto simp: parse_args_def)
  then show ?thesis by (simp add: DEFAULT_LANGUAGES_def)
next
  case (Some ls)
  show ?thesis
  proof (cases ls)
    case Nil
    with Some assms show ?thesis by (simp add: parse_args_def)
  next
    case (Cons l rest)
    with Some assms have "languages a = l # rest" by (auto simp: parse_args_def)
    then show ?thesis by simp
  qed
qed

text \<open>
  C9, as stated, fails: asked for an empty list (\<open>--languages\<close> with no word after
  it), the driver leaves in \<open>parse_args\<close> with status 2; nothing is run and there is no
  report, so no \<open>total_tests\<close> and no rate from which the status would come.
\<close>

theorem no_report_for_empty_request:
  "main quick_env (line_of []) world0 = Some (2, world0)
   \<and> out_files world0 (ascii ''test_report.json'') = None
   \<and> trail world0 = []"
  by (simp add: main_def parse_args_def line_of_def world0_def)

text \<open>
  C9, amended. The driver never runs a batch on an empty list of locales: whenever
  \<open>parse_args\<close> returns, the list it hands on has at least one element (the option is
  declared with \<open>nargs='+'\<close> and its default has three), and \<open>--languages\<close> with no
  word after it ends the process with status 2 in the parser, the world unchanged.
  Called with an empty list, \<open>run_all_tests\<close> launches nothing and returns the empty
  mapping; on the empty mapping the summary has \<open>total_tests\<close> 0, no success, no
  failure and the rate 0, without a division, and \<open>generate_report\<close> returns it when
  the report can be written; the exit chain of \<open>main\<close> gives 2 for a rate of 0.
\<close>

theorem empty_batch_exit_status:
  "(parse_args c = Inr a \<longrightarrow> languages a \<noteq> [])
   \<and> (given_languages c = Some [] \<longrightarrow> main e c w = Some (2, w))
   \<and> run_all_tests e r (Some []) w = Some ([], w)
   \<and> make_summary [] = Inr \<lparr> total_tests = 0, successful_tests = 0, failed_tests = 0,
                               success_rate = 0 \<rparr>
   \<and> (report_write e = None \<longrightarrow>
        fst (generate_report e r [] w) =
          Inr \<lparr> tutorial = tutorial_name r, timestamp = report_time e,
                summary = \<lparr> total_tests = 0, successful_tests = 0, failed_tests = 0,
                            success_rate = 0 \<rparr>,
                results = [] \<rparr>)
   \<and> exit_status 0 = 2"
proof (intro conjI impI)
  assume "parse_args c = Inr a"
  then show "languages a \<noteq> []" by (rule parse_args_languages)
next
  assume "given_languages c = Some []"
  then show "main e c w = Some (2, w)" by (simp add: main_def parse_args_def)
next
  show "run_all_tests e r (Some []) w = Some ([], w)" by (simp add: run_all_tests_def)
next
  show ms: "make_summary [] = Inr \<lparr> total_tests = 0, successful_tests = 0, failed_tests = 0,
                               success_rate = 0 \<rparr>"
    by (simp add: make_summary_def)
  assume "report_write e = None"
  then show "fst (generate_report e r [] w) =
          Inr \<lparr> tutorial = tutorial_name r, timestamp = report_time e,
                summary = \<lparr> total_tests = 0, successful_tests = 0, failed_tests = 0,
                            success_rate = 0 \<rparr>,
                results = [] \<rparr>"
    by (simp add: generate_report_def ms Let_def)
next
  show "exit_status 0 = 2" by (simp add: exit_status_def)
qed

text \<open>
  The command line without \<open>--languages\<close> is parsed to the three default locales;
  the one with the bare option leaves with 2 and an unchanged world.
\<close>

theorem empty_batch_exit_status_witness:
  "parse_args plain_line =
     Inr \<lparr> slicer_path = ascii ''Slicer'', arg_tutorial = ascii ''TestTutorial'',
           languages = DEFAULT_LANGUAGES, arg_output = None, arg_timeout = 300 \<rparr>
   \<and> DEFAULT_LANGUAGES \<noteq> []
   \<and> given_languages (line_of []) = Some []
   \<and> main quick_env (line_of []) world0 = Some (2, world0)
   \<and> fst (generate_report quick_env runner0 [] world0) =
          Inr \<lparr> tutorial = ascii ''TestTutorial'', timestamp = 1000,
                summary = \<lparr> total_tests = 0, successful_tests = 0, failed_tests = 0,
                            success_rate = 0 \<rparr>,
                results = [] \<rparr>"
proof -
  let ?a = "\<lparr> slicer_path = ascii ''Slicer'', arg_tutorial = ascii ''TestTutorial'',
           languages = DEFAULT_LANGUAGES, arg_output = None, arg_timeout = 300 \<rparr>"
  have p: "parse_args plain_line = Inr ?a"
    by (simp add: parse_args_def plain_line_def SLICER_TIMEOUT_def)
  have g: "given_languages (line_of []) = Some []" by (simp add: line_of_def)
  have w: "report_write quick_env = None" by (simp add: quick_env_def env_of_def)
  have env: "tutorial_name runner0 = ascii ''TestTutorial''" "report_time quick_env = 1000"
    by (simp_all add: runner0_def quick_env_def env_of_def)
  from empty_batch_exit_status [of plain_line ?a quick_env world0 runner0] p
  have a: "DEFAULT_LANGUAGES \<noteq> []" by simp
  from empty_batch_exit_status [of "line_of []" ?a quick_env world0 runner0] g
  have b: "main quick_env (line_of []) world0 = Some (2, world0)" by blast
  from empty_batch_exit_status [of "line_of []" ?a quick_env world0 runner0] w
  have "fst (generate_report quick_env runner0 [] world0) =
          Inr \<lparr> tutorial = tutorial_name runner0, timestamp = report_time quick_env,
                summary = \<lparr> total_tests = 0, successful_tests = 0, failed_tests = 0,
                            success_rate = 0 \<rparr>,
                results = [] \<rparr>" by blast
  then have c: "fst (generate_report quick_env runner0 [] world0) =
          Inr \<lparr> tutorial = ascii ''TestTutorial'', timestamp = 1000,
                summary = \<lparr> total_tests = 0, successful_tests = 0, failed_tests = 0,
                            success_rate = 0 \<rparr>,
                results = [] \<rparr>" by (simp only: env)
  show ?thesis by (intro conjI p a g b c)
qed

end
